theory Spec2Isabelle
  imports Complex_Main
begin

section \<open>Values: Python numbers, numpy arrays, exceptions\<close>

text \<open>
  The program is \<^verbatim>\<open>twists.py\<close>: the class \<^verbatim>\<open>OctahedralComplex\<close> with its two twists
  and \<^verbatim>\<open>generate_planes\<close>, and the request handler \<^verbatim>\<open>animate_twist\<close>.

  Floating-point numbers are modelled as real numbers: every arithmetic operation, \<open>sin\<close>,
  \<open>cos\<close> and \<open>sqrt\<close> is exact. Rounding is outside this development. What is kept is the
  difference between the two numpy element types the program meets: an array built from
  Python integers (the default positions) has element type \<^verbatim>\<open>int64\<close>, and a store of a float
  into such an array drops the fractional part.

  The store is applied to the exact value. Where the exact value is an integer and the
  program's double falls just below it, the program stores one less than the model does:
  the theorems below that state stored values do so at inputs where the two agree
  (progression 0, and 60 degrees on the default positions), and the last section
  evaluates in binary64 a case where they differ.
\<close>

datatype num = PyInt int | PyFloat real

type_synonym 'a vec3 = "'a \<times> 'a \<times> 'a"

datatype error = IndexError | ValueError | ZeroDivisionError

datatype ndarray = IntArray "int vec3 list" | FloatArray "real vec3 list"

fun map_vec3 :: "('a \<Rightarrow> 'b) \<Rightarrow> 'a vec3 \<Rightarrow> 'b vec3" where
  "map_vec3 f (a, b, c) = (f a, f b, f c)"

fun is_int :: "num \<Rightarrow> bool" where
  "is_int (PyInt _) = True"
| "is_int (PyFloat _) = False"

text \<open>The C cast of a double to a 64-bit integer rounds toward zero. Values outside the
  64-bit range are not modelled.\<close>

definition cast_int64 :: "real \<Rightarrow> int" where
  "cast_int64 r = (if 0 \<le> r then \<lfloor>r\<rfloor> else \<lceil>r\<rceil>)"

fun to_float :: "num \<Rightarrow> real" where
  "to_float (PyInt i) = real_of_int i"
| "to_float (PyFloat r) = r"

fun to_int :: "num \<Rightarrow> int" where
  "to_int (PyInt i) = i"
| "to_int (PyFloat r) = cast_int64 r"

text \<open>\<^verbatim>\<open>np.array(rows)\<close> on a list of coordinate triples: \<^verbatim>\<open>int64\<close> when every entry is a
  Python integer, \<^verbatim>\<open>float64\<close> as soon as one entry is a float, and \<^verbatim>\<open>float64\<close> for the
  empty list.\<close>

definition np_array :: "num vec3 list \<Rightarrow> ndarray" where
  "np_array rows =
     (if rows \<noteq> [] \<and> list_all (\<lambda>(a, b, c). is_int a \<and> is_int b \<and> is_int c) rows
      then IntArray (map (map_vec3 to_int) rows)
      else FloatArray (map (map_vec3 to_float) rows))"

fun tolist :: "ndarray \<Rightarrow> num vec3 list" where
  "tolist (IntArray rs) = map (map_vec3 PyInt) rs"
| "tolist (FloatArray rs) = map (map_vec3 PyFloat) rs"

fun as_float :: "ndarray \<Rightarrow> real vec3 list" where
  "as_float (IntArray rs) = map (map_vec3 real_of_int) rs"
| "as_float (FloatArray rs) = rs"

fun len :: "ndarray \<Rightarrow> nat" where
  "len (IntArray rs) = length rs"
| "len (FloatArray rs) = length rs"

text \<open>Indexing with a list of row numbers (\<^verbatim>\<open>a[[0, 2, 4]]\<close>) copies the rows; a row
  number past the end raises \<^verbatim>\<open>IndexError\<close>.\<close>

definition take_rows :: "'a list \<Rightarrow> nat list \<Rightarrow> error + 'a list" where
  "take_rows rows idx =
     (if list_all (\<lambda>i. i < length rows) idx then Inr (map (\<lambda>i. rows ! i) idx)
      else Inl IndexError)"

fun getitem :: "ndarray \<Rightarrow> nat list \<Rightarrow> error + ndarray" where
  "getitem (IntArray rs) idx = map_sum id IntArray (take_rows rs idx)"
| "getitem (FloatArray rs) idx = map_sum id FloatArray (take_rows rs idx)"

text \<open>Assignment through a list of row numbers (\<^verbatim>\<open>a[[0, 2, 4]] = vals\<close>): the values are
  cast to the element type of \<open>a\<close>. The program only ever stores as many rows as it names.\<close>

definition put_rows :: "'a list \<Rightarrow> nat list \<Rightarrow> 'a list \<Rightarrow> error + 'a list" where
  "put_rows rows idx vals =
     (if list_all (\<lambda>i. i < length rows) idx
      then Inr (fold (\<lambda>(i, v) xs. xs[i := v]) (zip idx vals) rows)
      else Inl IndexError)"

fun setitem :: "ndarray \<Rightarrow> nat list \<Rightarrow> real vec3 list \<Rightarrow> error + ndarray" where
  "setitem (IntArray rs) idx vals =
     map_sum id IntArray (put_rows rs idx (map (map_vec3 cast_int64) vals))"
| "setitem (FloatArray rs) idx vals = map_sum id FloatArray (put_rows rs idx vals)"

text \<open>The array a store leaves when every row of an array is assigned: the new rows, cast
  to the element type of the array.\<close>

fun astype_like :: "ndarray \<Rightarrow> real vec3 list \<Rightarrow> ndarray" where
  "astype_like (IntArray _) vals = IntArray (map (map_vec3 cast_int64) vals)"
| "astype_like (FloatArray _) vals = FloatArray vals"

section \<open>Rotations (scipy.spatial.transform.Rotation)\<close>

text \<open>
  A \<^verbatim>\<open>Rotation\<close> is stored as a quaternion \<open>(x, y, z, w)\<close>. \<^verbatim>\<open>from_rotvec\<close> reads the angle
  as the length of the rotation vector and scales the vector by \<open>sin (angle / 2) / angle\<close>
  (the library evaluates this factor by its Taylor polynomial below \<open>0.001\<close>; here it is the
  function itself, with its limit \<open>1 / 2\<close> at \<open>0\<close>). \<^verbatim>\<open>apply\<close> multiplies each vector by the
  rotation matrix of the quaternion, and rejects an array that is not of shape \<open>(P, 3)\<close>,
  which for a list of triples is the empty one.
\<close>

type_synonym quat = "real \<times> real \<times> real \<times> real"

fun norm3 :: "real vec3 \<Rightarrow> real" where
  "norm3 (x, y, z) = sqrt (x * x + y * y + z * z)"

fun scale3 :: "real \<Rightarrow> real vec3 \<Rightarrow> real vec3" where
  "scale3 t (x, y, z) = (t * x, t * y, t * z)"

fun div3 :: "real vec3 \<Rightarrow> real \<Rightarrow> real vec3" where
  "div3 (x, y, z) n = (x / n, y / n, z / n)"

definition deg2rad :: "real \<Rightarrow> real" where
  "deg2rad d = d * (pi / 180)"

definition from_rotvec :: "real vec3 \<Rightarrow> quat" where
  "from_rotvec v =
     (let angle = norm3 v;
          s = (if angle = 0 then 1 / 2 else sin (angle / 2) / angle)
      in case v of (x, y, z) \<Rightarrow> (s * x, s * y, s * z, cos (angle / 2)))"

fun as_matrix :: "quat \<Rightarrow> (real vec3) vec3" where
  "as_matrix (x, y, z, w) =
     ((x * x - y * y - z * z + w * w, 2 * (x * y - z * w), 2 * (x * z + y * w)),
      (2 * (x * y + z * w), - (x * x) + y * y - z * z + w * w, 2 * (y * z - x * w)),
      (2 * (x * z - y * w), 2 * (y * z + x * w), - (x * x) - y * y + z * z + w * w))"

fun dot3 :: "real vec3 \<Rightarrow> real vec3 \<Rightarrow> real" where
  "dot3 (a, b, c) (x, y, z) = a * x + b * y + c * z"

definition apply1 :: "quat \<Rightarrow> real vec3 \<Rightarrow> real vec3" where
  "apply1 q v = (case as_matrix q of (r0, r1, r2) \<Rightarrow> (dot3 r0 v, dot3 r1 v, dot3 r2 v))"

definition rotation_apply :: "quat \<Rightarrow> ndarray \<Rightarrow> error + ndarray" where
  "rotation_apply q vectors =
     (if len vectors = 0 then Inl ValueError
      else Inr (FloatArray (map (apply1 q) (as_float vectors))))"

section \<open>OctahedralComplex\<close>

record OctahedralComplex =
  initial_positions :: ndarray
  positions :: ndarray

definition default_positions :: "num vec3 list" where
  "default_positions =
     [(PyInt 1, PyInt 0, PyInt 0), (PyInt (- 1), PyInt 0, PyInt 0),
      (PyInt 0, PyInt 1, PyInt 0), (PyInt 0, PyInt (- 1), PyInt 0),
      (PyInt 0, PyInt 0, PyInt 1), (PyInt 0, PyInt 0, PyInt (- 1))]"

text \<open>The constructor has no check of its own: every list of triples is accepted.\<close>

definition OctahedralComplex_init :: "num vec3 list option \<Rightarrow> error + OctahedralComplex" where
  "OctahedralComplex_init arg =
     (let given = (case arg of None \<Rightarrow> default_positions | Some p \<Rightarrow> p);
          ip = np_array given
      in Inr \<lparr>initial_positions = ip, positions = ip\<rparr>)"

record plane =
  plane_x :: "num list"
  plane_y :: "num list"
  plane_z :: "num list"

definition faces :: "nat list list" where
  "faces = [[0, 2, 4], [0, 2, 5], [0, 3, 4], [0, 3, 5],
            [1, 2, 4], [1, 2, 5], [1, 3, 4], [1, 3, 5]]"

definition plane_of :: "ndarray \<Rightarrow> plane" where
  "plane_of vertices =
     \<lparr>plane_x = map fst (tolist vertices),
      plane_y = map (fst \<circ> snd) (tolist vertices),
      plane_z = map (snd \<circ> snd) (tolist vertices)\<rparr>"

fun planes_loop :: "ndarray \<Rightarrow> nat list list \<Rightarrow> plane list \<Rightarrow> error + plane list" where
  "planes_loop ps [] plane_coords = Inr plane_coords"
| "planes_loop ps (face # rest) plane_coords =
     (case getitem ps face of
        Inl e \<Rightarrow> Inl e
      | Inr vertices \<Rightarrow> planes_loop ps rest (plane_coords @ [plane_of vertices]))"

definition generate_planes :: "OctahedralComplex \<Rightarrow> error + plane list" where
  "generate_planes self = planes_loop (positions self) faces []"

text \<open>A method that assigns to \<^verbatim>\<open>self.positions\<close> returns its result, or the exception it
  raised, together with the object as the call left it.\<close>

definition ray_dutt_twist ::
  "OctahedralComplex \<Rightarrow> real \<Rightarrow> real \<Rightarrow> (error + ndarray) \<times> OctahedralComplex" where
  "ray_dutt_twist self angle progression =
     (let theta = deg2rad (angle * progression);
          axis = (1, 1, 1);
          axis = div3 axis (norm3 axis);
          rotation = from_rotvec (scale3 theta axis)
      in case rotation_apply rotation (initial_positions self) of
           Inl e \<Rightarrow> (Inl e, self)
         | Inr ps \<Rightarrow> (Inr ps, self\<lparr>positions := ps\<rparr>))"

definition bailar_twist ::
  "OctahedralComplex \<Rightarrow> real \<Rightarrow> real \<Rightarrow> (error + ndarray) \<times> OctahedralComplex" where
  "bailar_twist self angle progression =
     (let theta = deg2rad (angle * progression);
          top_indices = [0, 2, 4];
          bottom_indices = [1, 3, 5];
          top_rotation = from_rotvec (scale3 theta (0, 0, 1));
          bottom_rotation = from_rotvec (scale3 (- theta) (0, 0, 1));
          self1 = self\<lparr>positions := initial_positions self\<rparr>
      in case getitem (initial_positions self1) top_indices of
           Inl e \<Rightarrow> (Inl e, self1)
         | Inr top_rows \<Rightarrow>
      (case rotation_apply top_rotation top_rows of
           Inl e \<Rightarrow> (Inl e, self1)
         | Inr top_new \<Rightarrow>
      (case setitem (positions self1) top_indices (as_float top_new) of
           Inl e \<Rightarrow> (Inl e, self1)
         | Inr ps2 \<Rightarrow>
      (let self2 = self1\<lparr>positions := ps2\<rparr>
       in case getitem (initial_positions self2) bottom_indices of
           Inl e \<Rightarrow> (Inl e, self2)
         | Inr bottom_rows \<Rightarrow>
      (case rotation_apply bottom_rotation bottom_rows of
           Inl e \<Rightarrow> (Inl e, self2)
         | Inr bottom_new \<Rightarrow>
      (case setitem (positions self2) bottom_indices (as_float bottom_new) of
           Inl e \<Rightarrow> (Inl e, self2)
         | Inr ps3 \<Rightarrow> (Inr ps3, self2\<lparr>positions := ps3\<rparr>)))))))"

section \<open>The request handler\<close>

record request_json =
  req_twist_type :: "string option"
  req_angle :: "real option"
  req_frames :: "int option"

record frame =
  frame_positions :: "num vec3 list"
  frame_edges :: "(nat \<times> nat) list"
  frame_planes :: "plane list"

definition edges :: "(nat \<times> nat) list" where
  "edges = [(0, 1), (2, 3), (4, 5),
            (0, 2), (0, 4), (1, 3), (1, 5), (2, 4), (2, 5), (3, 4), (3, 5)]"

text \<open>The loop over \<^verbatim>\<open>range(num_frames + 1)\<close>; \<open>complex_obj\<close> is the module's one
  \<^verbatim>\<open>OctahedralComplex\<close>, threaded through. The division \<^verbatim>\<open>i / num_frames\<close> raises when
  \<open>num_frames\<close> is zero.\<close>

fun animate_loop ::
  "string \<Rightarrow> real \<Rightarrow> int \<Rightarrow> nat list \<Rightarrow> frame list \<Rightarrow> OctahedralComplex
     \<Rightarrow> (error + frame list) \<times> OctahedralComplex" where
  "animate_loop twist_type max_angle num_frames [] frames complex_obj =
     (Inr frames, complex_obj)"
| "animate_loop twist_type max_angle num_frames (i # rest) frames complex_obj =
     (if num_frames = 0 then (Inl ZeroDivisionError, complex_obj)
      else
        let progression = real i / real_of_int num_frames;
            (r, complex_obj') =
               (if twist_type = ''ray_dutt''
                then ray_dutt_twist complex_obj max_angle progression
                else bailar_twist complex_obj max_angle progression)
        in case r of
             Inl e \<Rightarrow> (Inl e, complex_obj')
           | Inr ps \<Rightarrow>
               (case generate_planes complex_obj' of
                  Inl e \<Rightarrow> (Inl e, complex_obj')
                | Inr planes \<Rightarrow>
                    animate_loop twist_type max_angle num_frames rest
                      (frames @ [\<lparr>frame_positions = tolist ps, frame_edges = edges,
                                  frame_planes = planes\<rparr>])
                      complex_obj'))"

definition animate_twist ::
  "OctahedralComplex \<Rightarrow> request_json \<Rightarrow> (error + frame list) \<times> OctahedralComplex" where
  "animate_twist complex_obj request =
     (let twist_type = (case req_twist_type request of None \<Rightarrow> ''ray_dutt'' | Some t \<Rightarrow> t);
          max_angle = (case req_angle request of None \<Rightarrow> 45 | Some a \<Rightarrow> a);
          num_frames = (case req_frames request of None \<Rightarrow> 30 | Some n \<Rightarrow> n)
      in animate_loop twist_type max_angle num_frames [0..<nat (num_frames + 1)] []
           complex_obj)"

section \<open>Sequences of calls\<close>

text \<open>The calls a client can make on one \<^verbatim>\<open>OctahedralComplex\<close>, and the object they
  leave behind, whether they returned or raised.\<close>

datatype call =
    RayDutt real real
  | Bailar real real
  | GeneratePlanes
  | AnimateTwist request_json

fun do_call :: "call \<Rightarrow> OctahedralComplex \<Rightarrow> OctahedralComplex" where
  "do_call (RayDutt angle progression) c = snd (ray_dutt_twist c angle progression)"
| "do_call (Bailar angle progression) c = snd (bailar_twist c angle progression)"
| "do_call GeneratePlanes c = c"
| "do_call (AnimateTwist request) c = snd (animate_twist c request)"

definition run_calls :: "call list \<Rightarrow> OctahedralComplex \<Rightarrow> OctahedralComplex" where
  "run_calls calls c = fold do_call calls c"

section \<open>The specification's notions\<close>

text \<open>The rotation of a point \<open>v\<close> by the angle \<open>t\<close> (in radians, right-hand rule) about the
  unit axis \<open>k\<close>, in axis-angle form: \<open>v cos t + (k \<times> v) sin t + k (k \<cdot> v) (1 - cos t)\<close>.
  \<open>rotate_points\<close> applies it to every point of a sequence, in order.\<close>

fun cross3 :: "real vec3 \<Rightarrow> real vec3 \<Rightarrow> real vec3" where
  "cross3 (a, b, c) (x, y, z) = (b * z - c * y, c * x - a * z, a * y - b * x)"

fun add3 :: "real vec3 \<Rightarrow> real vec3 \<Rightarrow> real vec3" where
  "add3 (a, b, c) (x, y, z) = (a + x, b + y, c + z)"

definition rotate_about :: "real vec3 \<Rightarrow> real \<Rightarrow> real vec3 \<Rightarrow> real vec3" where
  "rotate_about k t v =
     add3 (add3 (scale3 (cos t) v) (scale3 (sin t) (cross3 k v)))
          (scale3 (dot3 k v * (1 - cos t)) k)"

definition rotate_points :: "real vec3 list \<Rightarrow> real \<Rightarrow> real vec3 \<Rightarrow> real vec3 list" where
  "rotate_points points t axis = map (rotate_about axis t) points"

text \<open>A freshly constructed complex: both vertex sets are the initial one.\<close>

definition fresh :: "ndarray \<Rightarrow> OctahedralComplex" where
  "fresh initial = \<lparr>initial_positions = initial, positions = initial\<rparr>"

text \<open>The face topology as index triples, and the coordinates of the faces of a vertex
  set: for each triple the three points it names, as their x, y and z lists.\<close>

definition face_topology :: "(nat \<times> nat \<times> nat) list" where
  "face_topology = [(0, 2, 4), (0, 2, 5), (0, 3, 4), (0, 3, 5),
                    (1, 2, 4), (1, 2, 5), (1, 3, 4), (1, 3, 5)]"

definition facesAsCoordinates :: "num vec3 list \<Rightarrow> plane list" where
  "facesAsCoordinates vertexSet =
     map (\<lambda>(i, j, k).
            \<lparr>plane_x = [fst (vertexSet ! i), fst (vertexSet ! j), fst (vertexSet ! k)],
             plane_y = [fst (snd (vertexSet ! i)), fst (snd (vertexSet ! j)),
                        fst (snd (vertexSet ! k))],
             plane_z = [snd (snd (vertexSet ! i)), snd (snd (vertexSet ! j)),
                        snd (snd (vertexSet ! k))]\<rparr>)
         face_topology"

text \<open>The Bailar grouping: the points at indices 0, 2, 4 turn by \<open>+ t\<close> about
  \<open>(0, 0, 1)\<close>, the points at indices 1, 3, 5 by \<open>- t\<close>, each staying at its index.\<close>

definition counter_rotate :: "real \<Rightarrow> real vec3 list \<Rightarrow> real vec3 list" where
  "counter_rotate t points =
     map (\<lambda>i. rotate_about (0, 0, 1) (if i \<in> {0, 2, 4} then t else - t) (points ! i))
         [0..<length points]"

text \<open>The edge topology, and a frame: the coordinates of a vertex set with the edge
  topology and the coordinates of its faces.\<close>

definition edge_topology :: "(nat \<times> nat) list" where
  "edge_topology = [(0, 1), (2, 3), (4, 5),
                    (0, 2), (0, 4), (1, 3), (1, 5), (2, 4), (2, 5), (3, 4), (3, 5)]"

definition snapshot :: "num vec3 list \<Rightarrow> frame" where
  "snapshot vertexSet =
     \<lparr>frame_positions = vertexSet, frame_edges = edge_topology,
      frame_planes = facesAsCoordinates vertexSet\<rparr>"

section \<open>Binary64 rounding of one matrix entry\<close>

text \<open>The nearest binary64 number, ties to even, for a value in the normal range (neither
  overflow nor subnormal numbers), and the entry \<open>[2][2]\<close> of the rotation matrix as
  \<^verbatim>\<open>as_matrix\<close> computes it, \<^verbatim>\<open>- x2 - y2 + z2 + w2\<close>, with every product and every sum
  rounded. This entry is the z-coordinate of the image of \<open>(0, 0, 1)\<close>.\<close>

definition round_half_even :: "real \<Rightarrow> int" where
  "round_half_even x =
     (let f = \<lfloor>x\<rfloor>; d = x - real_of_int f
      in if d < 1 / 2 then f else if 1 / 2 < d then f + 1 else if even f then f else f + 1)"

definition round_double :: "real \<Rightarrow> real" where
  "round_double x =
     (if x = 0 then 0
      else let e = \<lfloor>log 2 \<bar>x\<bar>\<rfloor> - 52
           in real_of_int (round_half_even (x / 2 powr real_of_int e)) * 2 powr real_of_int e)"

fun zz_entry_double :: "quat \<Rightarrow> real" where
  "zz_entry_double (x, y, z, w) =
     (let x2 = round_double (x * x); y2 = round_double (y * y);
          z2 = round_double (z * z); w2 = round_double (w * w)
      in round_double (round_double (round_double (- x2 - y2) + z2) + w2))"

section \<open>Rotations: the quaternion and the axis-angle form agree\<close>

lemma norm3_scale3: "norm3 (scale3 t k) = \<bar>t\<bar> * norm3 k"
proof (cases k)
  case (fields x y z)
  have "t * x * (t * x) + t * y * (t * y) + t * z * (t * z) = t\<^sup>2 * (x * x + y * y + z * z)"
    by (simp add: power2_eq_square algebra_simps)
  then show ?thesis using fields by (simp add: real_sqrt_mult)
qed

lemma half_angle_factor:
  fixes t :: real
  shows "(if \<bar>t\<bar> = 0 then 1 / 2 else sin (\<bar>t\<bar> / 2) / \<bar>t\<bar>) * t = sin (t / 2)"
  by (cases "t = 0"; cases "0 < t") (auto simp: abs_if)

lemma from_rotvec_unit:
  assumes "norm3 k = 1"
  shows "from_rotvec (scale3 t k) =
           (case k of (x, y, z) \<Rightarrow> (sin (t / 2) * x, sin (t / 2) * y, sin (t / 2) * z, cos (t / 2)))"
proof (cases k)
  case (fields x y z)
  have n: "norm3 (scale3 t k) = \<bar>t\<bar>" using assms by (simp add: norm3_scale3)
  have c: "cos (\<bar>t\<bar> / 2) = cos (t / 2)" by (simp add: abs_if)
  have h: "\<And>u. (if \<bar>t\<bar> = 0 then 1 / 2 else sin (\<bar>t\<bar> / 2) / \<bar>t\<bar>) * (t * u) = sin (t / 2) * u"
    using half_angle_factor [of t] by (metis mult.assoc)
  show ?thesis
    unfolding from_rotvec_def n Let_def using fields c h by (simp del: abs_eq_0 abs_eq_0_iff)
qed

lemma quat_rotation:
  fixes s c :: real
  assumes u: "x * x + y * y + z * z = 1"
  shows "apply1 (s * x, s * y, s * z, c) (a, b, d) =
         add3 (add3 (scale3 (c * c - s * s) (a, b, d))
                    (scale3 (2 * s * c) (cross3 (x, y, z) (a, b, d))))
              (scale3 (dot3 (x, y, z) (a, b, d) * (2 * s * s)) (x, y, z))"
proof -
  define r where "r = 1 - (x * x + y * y + z * z)"
  have r0: "r = 0" using u by (simp add: r_def)
  have X: "(s * x * (s * x) - s * y * (s * y) - s * z * (s * z) + c * c) * a
             + 2 * (s * x * (s * y) - s * z * c) * b + 2 * (s * x * (s * z) + s * y * c) * d
           = (c * c - s * s) * a + 2 * s * c * (y * d - z * b)
             + (x * a + y * b + z * d) * (2 * s * s) * x + s * s * a * r"
    unfolding r_def by (simp add: algebra_simps)
  have Y: "2 * (s * x * (s * y) + s * z * c) * a
             + (- (s * x * (s * x)) + s * y * (s * y) - s * z * (s * z) + c * c) * b
             + 2 * (s * y * (s * z) - s * x * c) * d
           = (c * c - s * s) * b + 2 * s * c * (z * a - x * d)
             + (x * a + y * b + z * d) * (2 * s * s) * y + s * s * b * r"
    unfolding r_def by (simp add: algebra_simps)
  have Z: "2 * (s * x * (s * z) - s * y * c) * a + 2 * (s * y * (s * z) + s * x * c) * b
             + (- (s * x * (s * x)) - s * y * (s * y) + s * z * (s * z) + c * c) * d
           = (c * c - s * s) * d + 2 * s * c * (x * b - y * a)
             + (x * a + y * b + z * d) * (2 * s * s) * z + s * s * d * r"
    unfolding r_def by (simp add: algebra_simps)
  show ?thesis
    using X Y Z unfolding r0 by (simp add: apply1_def)
qed

lemma half_angle:
  fixes t :: real
  shows "cos t = cos (t / 2) * cos (t / 2) - sin (t / 2) * sin (t / 2)"
    and "sin t = 2 * sin (t / 2) * cos (t / 2)"
    and "1 - cos t = 2 * sin (t / 2) * sin (t / 2)"
proof -
  show 1: "cos t = cos (t / 2) * cos (t / 2) - sin (t / 2) * sin (t / 2)"
    using cos_add [of "t / 2" "t / 2"] by simp
  show "sin t = 2 * sin (t / 2) * cos (t / 2)"
    using sin_add [of "t / 2" "t / 2"] by simp
  have "sin (t / 2) * sin (t / 2) + cos (t / 2) * cos (t / 2) = 1"
    using sin_cos_squared_add [of "t / 2"] by (simp add: power2_eq_square)
  then show "1 - cos t = 2 * sin (t / 2) * sin (t / 2)"
    using 1 by simp
qed

lemma apply1_from_rotvec:
  assumes "norm3 k = 1"
  shows "apply1 (from_rotvec (scale3 t k)) v = rotate_about k t v"
proof (cases k)
  case (fields x y z)
  obtain a b d where v: "v = (a, b, d)" by (cases v)
  have "sqrt (x * x + y * y + z * z) = 1" using assms fields by simp
  then have u: "x * x + y * y + z * z = 1" by simp
  have "rotate_about k t v =
          add3 (add3 (scale3 (cos (t / 2) * cos (t / 2) - sin (t / 2) * sin (t / 2)) v)
                     (scale3 (2 * sin (t / 2) * cos (t / 2)) (cross3 k v)))
               (scale3 (dot3 k v * (2 * sin (t / 2) * sin (t / 2))) k)"
    unfolding rotate_about_def half_angle(3) [of t]
    unfolding half_angle(1) [of t] half_angle(2) [of t] ..
  also have "\<dots> = apply1 (from_rotvec (scale3 t k)) v"
    unfolding from_rotvec_unit [OF assms]
    using quat_rotation [OF u, of "sin (t / 2)" "cos (t / 2)" a b d] fields v
    by simp
  finally show ?thesis by simp
qed


section \<open>The two twists, evaluated\<close>

lemma norm3_ones: "norm3 (1, 1, 1) = sqrt 3"
  by simp

lemma unit_diagonal: "norm3 (div3 (1, 1, 1) (sqrt 3)) = 1"
proof -
  have "1 / sqrt 3 * (1 / sqrt 3) = 1 / 3"
    by (simp add: power2_eq_square [symmetric] power_divide)
  then show ?thesis by simp
qed

lemma unit_z: "norm3 (0, 0, 1) = 1"
  by simp

lemma rotation_apply_rotate:
  assumes "norm3 k = 1" and "len vs \<noteq> 0"
  shows "rotation_apply (from_rotvec (scale3 t k)) vs = Inr (FloatArray (rotate_points (as_float vs) t k))"
  using assms by (simp add: rotation_apply_def rotate_points_def apply1_from_rotvec)

lemma ray_dutt_twist_rotate:
  assumes "len (initial_positions c) \<noteq> 0"
  shows "ray_dutt_twist c a p =
           (Inr (FloatArray (rotate_points (as_float (initial_positions c)) (deg2rad (a * p))
                               (div3 (1, 1, 1) (sqrt 3)))),
            c\<lparr>positions := FloatArray (rotate_points (as_float (initial_positions c)) (deg2rad (a * p))
                               (div3 (1, 1, 1) (sqrt 3)))\<rparr>)"
  unfolding ray_dutt_twist_def Let_def norm3_ones
    rotation_apply_rotate [OF unit_diagonal assms]
  by simp


lemma list_update_numeral [simp]:
  "(x # xs)[numeral n := y] = x # xs[pred_numeral n := y]"
  by (simp add: numeral_eq_Suc)

lemma bailar_twist_float:
  assumes "initial_positions c = FloatArray [v0, v1, v2, v3, v4, v5]"
  shows "bailar_twist c a p =
           (Inr (FloatArray
              [rotate_about (0, 0, 1) (deg2rad (a * p)) v0,
               rotate_about (0, 0, 1) (- deg2rad (a * p)) v1,
               rotate_about (0, 0, 1) (deg2rad (a * p)) v2,
               rotate_about (0, 0, 1) (- deg2rad (a * p)) v3,
               rotate_about (0, 0, 1) (deg2rad (a * p)) v4,
               rotate_about (0, 0, 1) (- deg2rad (a * p)) v5]),
            c\<lparr>positions := FloatArray
              [rotate_about (0, 0, 1) (deg2rad (a * p)) v0,
               rotate_about (0, 0, 1) (- deg2rad (a * p)) v1,
               rotate_about (0, 0, 1) (deg2rad (a * p)) v2,
               rotate_about (0, 0, 1) (- deg2rad (a * p)) v3,
               rotate_about (0, 0, 1) (deg2rad (a * p)) v4,
               rotate_about (0, 0, 1) (- deg2rad (a * p)) v5]\<rparr>)"
  unfolding bailar_twist_def Let_def
  using assms
  by (simp add: take_rows_def put_rows_def rotation_apply_rotate [OF unit_z] rotate_points_def
           del: scale3.simps)


lemma bailar_twist_int:
  assumes "initial_positions c = IntArray [v0, v1, v2, v3, v4, v5]"
  shows "bailar_twist c a p =
           (Inr (IntArray
              [map_vec3 cast_int64 (rotate_about (0, 0, 1) (deg2rad (a * p)) (map_vec3 real_of_int v0)),
               map_vec3 cast_int64 (rotate_about (0, 0, 1) (- deg2rad (a * p)) (map_vec3 real_of_int v1)),
               map_vec3 cast_int64 (rotate_about (0, 0, 1) (deg2rad (a * p)) (map_vec3 real_of_int v2)),
               map_vec3 cast_int64 (rotate_about (0, 0, 1) (- deg2rad (a * p)) (map_vec3 real_of_int v3)),
               map_vec3 cast_int64 (rotate_about (0, 0, 1) (deg2rad (a * p)) (map_vec3 real_of_int v4)),
               map_vec3 cast_int64 (rotate_about (0, 0, 1) (- deg2rad (a * p)) (map_vec3 real_of_int v5))]),
            c\<lparr>positions := IntArray
              [map_vec3 cast_int64 (rotate_about (0, 0, 1) (deg2rad (a * p)) (map_vec3 real_of_int v0)),
               map_vec3 cast_int64 (rotate_about (0, 0, 1) (- deg2rad (a * p)) (map_vec3 real_of_int v1)),
               map_vec3 cast_int64 (rotate_about (0, 0, 1) (deg2rad (a * p)) (map_vec3 real_of_int v2)),
               map_vec3 cast_int64 (rotate_about (0, 0, 1) (- deg2rad (a * p)) (map_vec3 real_of_int v3)),
               map_vec3 cast_int64 (rotate_about (0, 0, 1) (deg2rad (a * p)) (map_vec3 real_of_int v4)),
               map_vec3 cast_int64 (rotate_about (0, 0, 1) (- deg2rad (a * p)) (map_vec3 real_of_int v5))]\<rparr>)"
  unfolding bailar_twist_def Let_def
  using assms
  by (simp add: take_rows_def put_rows_def rotation_apply_rotate [OF unit_z] rotate_points_def
           del: scale3.simps map_vec3.simps)

lemma rotate_about_z:
  "rotate_about (0, 0, 1) t (x, y, z) = (x * cos t - y * sin t, y * cos t + x * sin t, z)"
  by (simp add: rotate_about_def algebra_simps)

lemma rotate_about_zero: "rotate_about k 0 v = v"
  by (cases k; cases v) (simp add: rotate_about_def)

lemma rotate_points_zero: "rotate_points vs 0 k = vs"
  by (induction vs) (simp_all add: rotate_points_def rotate_about_zero)

lemma cast_int64_of_int [simp]: "cast_int64 (real_of_int i) = i"
  by (simp add: cast_int64_def)

lemma cast_of_int_vec3 [simp]: "map_vec3 cast_int64 (map_vec3 real_of_int v) = v"
  by (cases v) simp

lemma deg2rad_zero [simp]: "deg2rad 0 = 0"
  by (simp add: deg2rad_def)

lemma length_six:
  assumes "length xs = 6"
  obtains v0 v1 v2 v3 v4 v5 where "xs = [v0, v1, v2, v3, v4, v5]"
proof -
  from assms have "length xs = Suc (Suc (Suc (Suc (Suc (Suc 0)))))" by simp
  then obtain v0 v1 v2 v3 v4 v5 where "xs = [v0, v1, v2, v3, v4, v5]"
    by (auto simp: length_Suc_conv)
  then show ?thesis ..
qed

lemma bailar_zero:
  assumes "len (initial_positions c) = 6"
  shows "fst (bailar_twist c a 0) = Inr (initial_positions c)"
proof (cases "initial_positions c")
  case (IntArray rs)
  with assms have "length rs = 6" by simp
  then obtain v0 v1 v2 v3 v4 v5 where "rs = [v0, v1, v2, v3, v4, v5]" by (rule length_six)
  with IntArray show ?thesis
    by (simp add: bailar_twist_int rotate_about_zero)
next
  case (FloatArray rs)
  with assms have "length rs = 6" by simp
  then obtain v0 v1 v2 v3 v4 v5 where "rs = [v0, v1, v2, v3, v4, v5]" by (rule length_six)
  with FloatArray show ?thesis
    by (simp add: bailar_twist_float rotate_about_zero)
qed

lemma ray_dutt_zero:
  assumes "len (initial_positions c) = 6"
  shows "fst (ray_dutt_twist c a 0) = Inr (FloatArray (as_float (initial_positions c)))"
proof -
  have "len (initial_positions c) \<noteq> 0" using assms by simp
  then show ?thesis
    by (simp add: ray_dutt_twist_rotate rotate_points_zero)
qed

lemma cast_int64_small: "- 1 < r \<Longrightarrow> r < 1 \<Longrightarrow> cast_int64 r = 0"
  unfolding cast_int64_def
  by (auto intro!: floor_unique ceiling_unique)

lemma cast_int64_units [simp]:
  "cast_int64 0 = 0" "cast_int64 1 = 1" "cast_int64 (- 1) = - 1"
  using cast_int64_of_int [of 0] cast_int64_of_int [of 1] cast_int64_of_int [of "- 1"]
  by simp_all

lemma sqrt3_half: "0 < sqrt 3 / 2" "sqrt 3 / 2 < 1"
proof -
  show "0 < sqrt 3 / 2" by simp
  have "sqrt 3 < 2" by (rule real_less_lsqrt) simp_all
  then show "sqrt 3 / 2 < 1" by simp
qed

lemma deg2rad_60: "deg2rad (60 * 1) = pi / 3"
  by (simp add: deg2rad_def)

lemma len_np_array: "len (np_array rows) = length rows"
  by (simp add: np_array_def)

lemma generate_planes_six:
  assumes "len (positions c) = 6"
  shows "generate_planes c = Inr (facesAsCoordinates (tolist (positions c)))"
proof (cases "positions c")
  case (IntArray rs)
  with assms have "length rs = 6" by simp
  then obtain v0 v1 v2 v3 v4 v5 where "rs = [v0, v1, v2, v3, v4, v5]" by (rule length_six)
  with IntArray show ?thesis
    by (simp add: generate_planes_def faces_def take_rows_def plane_of_def
          facesAsCoordinates_def face_topology_def)
next
  case (FloatArray rs)
  with assms have "length rs = 6" by simp
  then obtain v0 v1 v2 v3 v4 v5 where "rs = [v0, v1, v2, v3, v4, v5]" by (rule length_six)
  with FloatArray show ?thesis
    by (simp add: generate_planes_def faces_def take_rows_def plane_of_def
          facesAsCoordinates_def face_topology_def)
qed

section \<open>What a call leaves behind\<close>

lemma ray_dutt_initial [simp]:
  "initial_positions (snd (ray_dutt_twist c a p)) = initial_positions c"
  by (simp add: ray_dutt_twist_def Let_def split: sum.splits)

lemma bailar_initial [simp]:
  "initial_positions (snd (bailar_twist c a p)) = initial_positions c"
  by (simp add: bailar_twist_def Let_def split: sum.splits)

lemma length_fold_update:
  "length (fold (\<lambda>(i, v) xs. xs[i := v]) ivs rows) = length rows"
  by (induction ivs arbitrary: rows) (auto split: prod.splits)

lemma put_rows_length: "put_rows rows idx vals = Inr rows' \<Longrightarrow> length rows' = length rows"
  by (auto simp: put_rows_def length_fold_update split: if_splits)

lemma setitem_len: "setitem arr idx vals = Inr arr' \<Longrightarrow> len arr' = len arr"
  by (cases arr) (auto simp: map_sum_def dest: put_rows_length split: sum.splits)

lemma rotation_apply_len: "rotation_apply q vs = Inr r \<Longrightarrow> len r = len vs"
  by (cases vs) (auto simp: rotation_apply_def split: if_splits)

lemma ray_dutt_len:
  "len (positions c) = len (initial_positions c) \<Longrightarrow>
   len (positions (snd (ray_dutt_twist c a p))) = len (initial_positions c)"
  by (auto simp: ray_dutt_twist_def Let_def dest: rotation_apply_len split: sum.splits)

lemma bailar_len:
  "len (positions (snd (bailar_twist c a p))) = len (initial_positions c)"
  by (auto simp: bailar_twist_def Let_def dest!: setitem_len split: sum.splits)

lemma ray_dutt_fresh:
  "fst (ray_dutt_twist c a p) = fst (ray_dutt_twist (fresh (initial_positions c)) a p)"
  by (simp add: ray_dutt_twist_def Let_def fresh_def split: sum.splits)

lemma bailar_fresh:
  "fst (bailar_twist c a p) = fst (bailar_twist (fresh (initial_positions c)) a p)"
  by (simp add: bailar_twist_def Let_def fresh_def split: sum.splits)

lemma ray_dutt_stored:
  "fst (ray_dutt_twist c a p) = Inr ps \<Longrightarrow> positions (snd (ray_dutt_twist c a p)) = ps"
  by (auto simp: ray_dutt_twist_def Let_def split: sum.splits)

lemma bailar_stored:
  "fst (bailar_twist c a p) = Inr ps \<Longrightarrow> positions (snd (bailar_twist c a p)) = ps"
  by (auto simp: bailar_twist_def Let_def split: sum.splits)

lemma dispatch_initial:
  "initial_positions (snd (if k = ''ray_dutt'' then ray_dutt_twist c a p
                           else bailar_twist c a p)) = initial_positions c"
  by simp

lemma dispatch_len:
  "len (positions c) = len (initial_positions c) \<Longrightarrow>
   len (positions (snd (if k = ''ray_dutt'' then ray_dutt_twist c a p
                        else bailar_twist c a p))) = len (initial_positions c)"
  by (simp add: ray_dutt_len bailar_len)

lemma animate_loop_initial:
  "initial_positions (snd (animate_loop k a n ixs fs c)) = initial_positions c"
proof (induction ixs arbitrary: fs c)
  case Nil
  show ?case by simp
next
  case (Cons i rest)
  obtain r c' where tw:
    "(if k = ''ray_dutt'' then ray_dutt_twist c a (real i / real_of_int n)
      else bailar_twist c a (real i / real_of_int n)) = (r, c')"
    by (cases "if k = ''ray_dutt'' then ray_dutt_twist c a (real i / real_of_int n)
               else bailar_twist c a (real i / real_of_int n)")
  have i: "initial_positions c' = initial_positions c"
    using dispatch_initial [of k c a "real i / real_of_int n"] unfolding tw by simp
  show ?case
    unfolding animate_loop.simps Let_def tw
    by (simp add: Cons.IH i split: sum.splits)
qed

lemma animate_loop_len:
  "len (positions c) = len (initial_positions c) \<Longrightarrow>
   len (positions (snd (animate_loop k a n ixs fs c))) = len (initial_positions c)"
proof (induction ixs arbitrary: fs c)
  case Nil
  then show ?case by simp
next
  case (Cons i rest)
  obtain r c' where tw:
    "(if k = ''ray_dutt'' then ray_dutt_twist c a (real i / real_of_int n)
      else bailar_twist c a (real i / real_of_int n)) = (r, c')"
    by (cases "if k = ''ray_dutt'' then ray_dutt_twist c a (real i / real_of_int n)
               else bailar_twist c a (real i / real_of_int n)")
  have i: "initial_positions c' = initial_positions c"
    using dispatch_initial [of k c a "real i / real_of_int n"] unfolding tw by simp
  have l: "len (positions c') = len (initial_positions c')"
    using dispatch_len [OF Cons.prems, of k a "real i / real_of_int n"] i unfolding tw by simp
  show ?case
    unfolding animate_loop.simps Let_def tw
    using Cons.IH [OF l] Cons.prems l i
    by (simp split: sum.splits)
qed

lemma do_call_initial: "initial_positions (do_call x c) = initial_positions c"
  by (cases x) (simp_all add: animate_twist_def Let_def animate_loop_initial)

lemma do_call_len:
  "len (positions c) = len (initial_positions c) \<Longrightarrow>
   len (positions (do_call x c)) = len (initial_positions c)"
  by (cases x) (simp_all add: animate_twist_def Let_def animate_loop_len ray_dutt_len bailar_len)

lemma run_calls_initial: "initial_positions (run_calls calls c) = initial_positions c"
  unfolding run_calls_def
  by (induction calls arbitrary: c) (simp_all add: do_call_initial)

lemma run_calls_len:
  "len (positions c) = len (initial_positions c) \<Longrightarrow>
   len (positions (run_calls calls c)) = len (initial_positions c)"
  unfolding run_calls_def
proof (induction calls arbitrary: c)
  case Nil
  then show ?case by simp
next
  case (Cons x xs)
  have "len (positions (do_call x c)) = len (initial_positions (do_call x c))"
    using do_call_len [OF Cons.prems] by (simp add: do_call_initial)
  from Cons.IH [OF this] show ?case by (simp add: do_call_initial)
qed

section \<open>Frames of the animation loop\<close>

lemma len_as_float: "length (as_float arr) = len arr"
  by (cases arr) simp_all

lemma edges_topology: "edges = edge_topology"
  by (simp add: edges_def edge_topology_def)

lemma counter_rotate_six:
  "counter_rotate t [v0, v1, v2, v3, v4, v5] =
     [rotate_about (0, 0, 1) t v0, rotate_about (0, 0, 1) (- t) v1,
      rotate_about (0, 0, 1) t v2, rotate_about (0, 0, 1) (- t) v3,
      rotate_about (0, 0, 1) t v4, rotate_about (0, 0, 1) (- t) v5]"
proof -
  have "[0..<length [v0, v1, v2, v3, v4, v5]] = [0, 1, 2, 3, 4, 5]"
    by (simp add: upt_rec)
  then show ?thesis by (simp add: counter_rotate_def)
qed

lemma bailar_twist_six:
  assumes "len (initial_positions c) = 6"
  shows "bailar_twist c a p =
           (Inr (astype_like (initial_positions c)
                   (counter_rotate (deg2rad (a * p)) (as_float (initial_positions c)))),
            c\<lparr>positions := astype_like (initial_positions c)
                   (counter_rotate (deg2rad (a * p)) (as_float (initial_positions c)))\<rparr>)"
proof (cases "initial_positions c")
  case (IntArray rs)
  with assms have "length rs = 6" by simp
  then obtain v0 v1 v2 v3 v4 v5 where "rs = [v0, v1, v2, v3, v4, v5]" by (rule length_six)
  with IntArray have i: "initial_positions c = IntArray [v0, v1, v2, v3, v4, v5]" by simp
  show ?thesis
    unfolding bailar_twist_int [OF i] unfolding i by (simp add: counter_rotate_six)
next
  case (FloatArray rs)
  with assms have "length rs = 6" by simp
  then obtain v0 v1 v2 v3 v4 v5 where "rs = [v0, v1, v2, v3, v4, v5]" by (rule length_six)
  with FloatArray have i: "initial_positions c = FloatArray [v0, v1, v2, v3, v4, v5]" by simp
  show ?thesis
    unfolding bailar_twist_float [OF i] unfolding i by (simp add: counter_rotate_six)
qed

lemma len_astype_like: "len (astype_like arr vals) = length vals"
  by (cases arr) simp_all

lemma length_counter_rotate: "length (counter_rotate t points) = length points"
  by (simp add: counter_rotate_def)

lemma animate_loop_ray_dutt:
  assumes "len (initial_positions c) = 6" and "n \<noteq> 0"
  shows "fst (animate_loop ''ray_dutt'' a n ixs acc c) =
           Inr (acc @ map (\<lambda>i. snapshot (map (map_vec3 PyFloat)
                            (rotate_points (as_float (initial_positions c))
                               (deg2rad (a * (real i / real_of_int n)))
                               (div3 (1, 1, 1) (sqrt 3))))) ixs)"
  using assms(1)
proof (induction ixs arbitrary: acc c)
  case Nil
  show ?case by simp
next
  case (Cons i rest)
  let ?rows = "rotate_points (as_float (initial_positions c))
                 (deg2rad (a * (real i / real_of_int n))) (div3 (1, 1, 1) (sqrt 3))"
  let ?c' = "c\<lparr>positions := FloatArray ?rows\<rparr>"
  have nz: "len (initial_positions c) \<noteq> 0" using Cons.prems by simp
  have tw: "ray_dutt_twist c a (real i / real_of_int n) = (Inr (FloatArray ?rows), ?c')"
    by (rule ray_dutt_twist_rotate [OF nz])
  have l: "len (positions ?c') = 6"
    using Cons.prems by (simp add: rotate_points_def len_as_float)
  have gp: "generate_planes ?c' = Inr (facesAsCoordinates (map (map_vec3 PyFloat) ?rows))"
    using generate_planes_six [OF l] by simp
  have six': "len (initial_positions ?c') = 6" using Cons.prems by simp
  have step: "animate_loop ''ray_dutt'' a n (i # rest) acc c =
              animate_loop ''ray_dutt'' a n rest
                (acc @ [snapshot (map (map_vec3 PyFloat) ?rows)]) ?c'"
    unfolding animate_loop.simps Let_def
    using assms(2) tw gp by (simp add: snapshot_def edges_topology)
  show ?case
    unfolding step using Cons.IH [OF six'] by simp
qed

lemma animate_loop_bailar:
  assumes "len (initial_positions c) = 6" and "n \<noteq> 0" and "k \<noteq> ''ray_dutt''"
  shows "fst (animate_loop k a n ixs acc c) =
           Inr (acc @ map (\<lambda>i. snapshot (tolist (astype_like (initial_positions c)
                            (counter_rotate (deg2rad (a * (real i / real_of_int n)))
                               (as_float (initial_positions c)))))) ixs)"
  using assms(1)
proof (induction ixs arbitrary: acc c)
  case Nil
  show ?case by simp
next
  case (Cons i rest)
  let ?ps = "astype_like (initial_positions c)
               (counter_rotate (deg2rad (a * (real i / real_of_int n)))
                  (as_float (initial_positions c)))"
  let ?c' = "c\<lparr>positions := ?ps\<rparr>"
  have tw: "bailar_twist c a (real i / real_of_int n) = (Inr ?ps, ?c')"
    by (rule bailar_twist_six [OF Cons.prems])
  have l: "len (positions ?c') = 6"
    using Cons.prems by (simp add: len_astype_like length_counter_rotate len_as_float)
  have gp: "generate_planes ?c' = Inr (facesAsCoordinates (tolist ?ps))"
    using generate_planes_six [OF l] by simp
  have six': "len (initial_positions ?c') = 6" using Cons.prems by simp
  have step: "animate_loop k a n (i # rest) acc c =
              animate_loop k a n rest (acc @ [snapshot (tolist ?ps)]) ?c'"
    unfolding animate_loop.simps Let_def
    using assms(2) assms(3) tw gp by (simp add: snapshot_def edges_topology)
  show ?case
    unfolding step using Cons.IH [OF six'] by simp
qed

lemma animate_twist_ray_dutt_frames:
  assumes "len (initial_positions c) = 6" and "1 \<le> n"
  shows "fst (animate_twist c
               \<lparr>req_twist_type = Some ''ray_dutt'', req_angle = Some a, req_frames = Some n\<rparr>) =
           Inr (map (\<lambda>i. snapshot (map (map_vec3 PyFloat)
                            (rotate_points (as_float (initial_positions c))
                               (deg2rad (a * (real i / real_of_int n)))
                               (div3 (1, 1, 1) (sqrt 3))))) [0..<nat n + 1])"
proof -
  have n0: "n \<noteq> 0" using assms(2) by simp
  have u: "nat (n + 1) = nat n + 1" using assms(2) by simp
  show ?thesis
    unfolding animate_twist_def Let_def
    using animate_loop_ray_dutt [OF assms(1) n0, of a "[0..<nat n + 1]" "[]"]
    by (simp add: u del: upt_Suc)
qed

lemma animate_twist_bailar_frames:
  assumes "len (initial_positions c) = 6" and "1 \<le> n" and "k \<noteq> ''ray_dutt''"
  shows "fst (animate_twist c
               \<lparr>req_twist_type = Some k, req_angle = Some a, req_frames = Some n\<rparr>) =
           Inr (map (\<lambda>i. snapshot (tolist (astype_like (initial_positions c)
                            (counter_rotate (deg2rad (a * (real i / real_of_int n)))
                               (as_float (initial_positions c)))))) [0..<nat n + 1])"
proof -
  have n0: "n \<noteq> 0" using assms(2) by simp
  have u: "nat (n + 1) = nat n + 1" using assms(2) by simp
  show ?thesis
    unfolding animate_twist_def Let_def
    using animate_loop_bailar [OF assms(1) n0 assms(3), of a "[0..<nat n + 1]" "[]"]
    by (simp add: u del: upt_Suc)
qed

section \<open>Claims about the Ray-Dutt twist\<close>

lemma default_array:
  "np_array default_positions =
     IntArray [(1, 0, 0), (- 1, 0, 0), (0, 1, 0), (0, - 1, 0), (0, 0, 1), (0, 0, - 1)]"
  by (simp add: np_array_def default_positions_def)

text \<open>
  C1: for a complex of six vertices, every angle \<open>a\<close> and every progression \<open>p\<close>,
  \<open>ray_dutt_twist\<close> returns the six initial positions, each transformed by the one rotation
  of \<open>deg2rad (a * p)\<close> radians about the unit axis \<open>(1, 1, 1) / sqrt 3\<close> (right-hand rule),
  in index order, and stores the result as the new current positions.
\<close>

theorem ray_dutt_twist_rotates_all:
  assumes "len (initial_positions c) = 6"
  shows "\<exists>ps. ray_dutt_twist c a p = (Inr (FloatArray ps), c\<lparr>positions := FloatArray ps\<rparr>)
           \<and> ps = rotate_points (as_float (initial_positions c)) (deg2rad (a * p))
                    (div3 (1, 1, 1) (sqrt 3))
           \<and> norm3 (div3 (1, 1, 1) (sqrt 3)) = 1
           \<and> length ps = 6
           \<and> (\<forall>i < 6. ps ! i = rotate_about (div3 (1, 1, 1) (sqrt 3)) (deg2rad (a * p))
                                   (as_float (initial_positions c) ! i))"
proof -
  let ?ps = "rotate_points (as_float (initial_positions c)) (deg2rad (a * p))
               (div3 (1, 1, 1) (sqrt 3))"
  have n: "len (initial_positions c) \<noteq> 0" using assms by simp
  have l: "length (as_float (initial_positions c)) = 6"
    using assms by (cases "initial_positions c") simp_all
  have 1: "ray_dutt_twist c a p = (Inr (FloatArray ?ps), c\<lparr>positions := FloatArray ?ps\<rparr>)"
    by (rule ray_dutt_twist_rotate [OF n])
  have 2: "length ?ps = 6" using l by (simp add: rotate_points_def)
  have 3: "\<forall>i < 6. ?ps ! i = rotate_about (div3 (1, 1, 1) (sqrt 3)) (deg2rad (a * p))
                                   (as_float (initial_positions c) ! i)"
    using l by (simp add: rotate_points_def)
  show ?thesis using 1 2 3 unit_diagonal by blast
qed

theorem ray_dutt_twist_rotates_all_witness:
  "len (initial_positions (fresh (np_array default_positions))) = 6
   \<and> fst (ray_dutt_twist (fresh (np_array default_positions)) 120 1) =
       Inr (FloatArray [(0, 1, 0), (0, - 1, 0), (0, 0, 1), (0, 0, - 1), (1, 0, 0), (- 1, 0, 0)])"
proof -
  have h: "len (initial_positions (fresh (np_array default_positions))) = 6"
    by (simp add: fresh_def default_array)
  have t: "deg2rad (120 * 1) = 2 * pi / 3" by (simp add: deg2rad_def)
  have s: "sqrt 3 * sqrt 3 = 3" by simp
  from ray_dutt_twist_rotates_all [OF h, of 120 1]
  have "fst (ray_dutt_twist (fresh (np_array default_positions)) 120 1) =
          Inr (FloatArray (rotate_points (as_float (initial_positions (fresh (np_array default_positions))))
             (deg2rad (120 * 1)) (div3 (1, 1, 1) (sqrt 3))))"
    by auto
  also have "\<dots> = Inr (FloatArray [(0, 1, 0), (0, - 1, 0), (0, 0, 1), (0, 0, - 1), (1, 0, 0), (- 1, 0, 0)])"
    unfolding t
    by (simp add: fresh_def default_array rotate_points_def rotate_about_def cos_120' sin_120' s
                  field_simps)
  finally show ?thesis using h by simp
qed


section \<open>Claims about the Bailar twist and about zero progression\<close>

text \<open>
  C2: the claim is that \<open>bailar_twist\<close> returns the initial positions 0, 2, 4 rotated by
  \<open>+ deg2rad (a * p)\<close> and 1, 3, 5 rotated by \<open>- deg2rad (a * p)\<close> about \<open>(0, 0, 1)\<close>. On an
  array of floats it does (\<open>bailar_twist_float\<close>). The default positions are an array of
  integers, and the rotated rows are stored into a copy of it: at 60 degrees the rotated
  \<open>+x\<close> vertex \<open>(1 / 2, sqrt 3 / 2, 0)\<close> is stored as \<open>(0, 0, 0)\<close>, as are the other three
  vertices of the xy-plane.
\<close>

theorem bailar_twist_default_truncated:
  "fst (bailar_twist (fresh (np_array default_positions)) 60 1) =
     Inr (IntArray [(0, 0, 0), (0, 0, 0), (0, 0, 0), (0, 0, 0), (0, 0, 1), (0, 0, - 1)])
   \<and> rotate_about (0, 0, 1) (deg2rad (60 * 1)) (1, 0, 0) = (1 / 2, sqrt 3 / 2, 0)"
proof -
  have i: "initial_positions (fresh (np_array default_positions)) =
     IntArray [(1, 0, 0), (- 1, 0, 0), (0, 1, 0), (0, - 1, 0), (0, 0, 1), (0, 0, - 1)]"
    by (simp add: fresh_def default_array)
  have h: "cast_int64 (1 / 2) = 0" "cast_int64 (- (1 / 2)) = 0"
    by (simp_all add: cast_int64_small)
  have h3: "cast_int64 (sqrt 3 / 2) = 0"
    by (rule cast_int64_small) (use sqrt3_half in linarith)+
  have h4: "cast_int64 (- (sqrt 3 / 2)) = 0"
    by (rule cast_int64_small) (use sqrt3_half in linarith)+
  show ?thesis
    unfolding bailar_twist_int [OF i] deg2rad_60
    by (simp add: rotate_about_z cos_60 sin_60 h h3 h4)
qed

text \<open>
  C3: at progression 0 both twists return the initial vertex set, for every angle:
  \<open>ray_dutt_twist\<close> as an array of floats holding the initial coordinates,
  \<open>bailar_twist\<close> as a copy of the initial array.
\<close>

theorem twists_identity_at_zero:
  assumes "len (initial_positions c) = 6"
  shows "fst (ray_dutt_twist c a 0) = Inr (FloatArray (as_float (initial_positions c)))
       \<and> fst (bailar_twist c a 0) = Inr (initial_positions c)"
  using ray_dutt_zero [OF assms] bailar_zero [OF assms] by simp

theorem twists_identity_at_zero_witness:
  "len (initial_positions (fresh (np_array default_positions))) = 6
   \<and> fst (ray_dutt_twist (fresh (np_array default_positions)) 60 0) =
       Inr (FloatArray [(1, 0, 0), (- 1, 0, 0), (0, 1, 0), (0, - 1, 0), (0, 0, 1), (0, 0, - 1)])
   \<and> fst (bailar_twist (fresh (np_array default_positions)) 60 0) =
       Inr (IntArray [(1, 0, 0), (- 1, 0, 0), (0, 1, 0), (0, - 1, 0), (0, 0, 1), (0, 0, - 1)])"
proof -
  have h: "len (initial_positions (fresh (np_array default_positions))) = 6"
    by (simp add: fresh_def default_array)
  have i: "initial_positions (fresh (np_array default_positions)) =
     IntArray [(1, 0, 0), (- 1, 0, 0), (0, 1, 0), (0, - 1, 0), (0, 0, 1), (0, 0, - 1)]"
    by (simp add: fresh_def default_array)
  show ?thesis
    using h twists_identity_at_zero [OF h, of 60] unfolding i by simp
qed


section \<open>Claims about construction, the faces and the frame count\<close>

text \<open>
  C6, as stated, fails: the claim is that a supplied vertex set whose length is not six is
  rejected with an invalid-input error. The constructor has no check; a one-point set
  is accepted.
\<close>

theorem init_accepts_one_vertex:
  "OctahedralComplex_init (Some [(PyInt 1, PyInt 0, PyInt 0)]) =
     Inr \<lparr>initial_positions = IntArray [(1, 0, 0)], positions = IntArray [(1, 0, 0)]\<rparr>"
  by (simp add: OctahedralComplex_init_def np_array_def Let_def)

text \<open>
  C6, amended: construction never fails. With no supplied set the six default points are
  used; a supplied list of coordinate triples of any length is stored as given, as both the
  initial and the current vertex set.
\<close>

theorem init_accepts_any_length:
  "\<exists>c. OctahedralComplex_init arg = Inr c
       \<and> initial_positions c = np_array (case arg of None \<Rightarrow> default_positions | Some p \<Rightarrow> p)
       \<and> positions c = initial_positions c
       \<and> len (initial_positions c) =
            length (case arg of None \<Rightarrow> default_positions | Some p \<Rightarrow> p)
       \<and> length default_positions = 6"
  by (simp add: OctahedralComplex_init_def Let_def len_np_array default_positions_def)

text \<open>
  C7, as stated, fails: the claim is that a frame count below one is rejected with an
  invalid-input error rather than with an empty sequence or a division error. For the
  frame count \<open>- 1\<close> the handler returns the empty sequence.
\<close>

theorem animate_twist_negative_frames_empty:
  "fst (animate_twist (fresh (np_array default_positions))
          \<lparr>req_twist_type = Some ''ray_dutt'', req_angle = Some 60, req_frames = Some (- 1)\<rparr>)
     = Inr []"
  by (simp add: animate_twist_def)

text \<open>
  C7, amended: for the frame count \<open>0\<close> the handler raises \<open>ZeroDivisionError\<close> at the
  first progression value, and for every negative frame count it returns the empty
  sequence; in both cases the complex is left as it was.
\<close>

theorem animate_twist_frames_below_one:
  assumes "n < 1"
  shows "animate_twist c \<lparr>req_twist_type = k, req_angle = a, req_frames = Some n\<rparr> =
           (if n = 0 then (Inl ZeroDivisionError, c) else (Inr [], c))"
proof (cases "n = 0")
  case True
  then show ?thesis by (simp add: animate_twist_def)
next
  case False
  with assms have "nat (n + 1) = 0" by simp
  with False show ?thesis by (simp add: animate_twist_def Let_def)
qed

theorem animate_twist_frames_below_one_witness:
  "(0::int) < 1 \<and>
   animate_twist (fresh (np_array default_positions))
      \<lparr>req_twist_type = Some ''bailar'', req_angle = Some 90, req_frames = Some 0\<rparr> =
     (Inl ZeroDivisionError, fresh (np_array default_positions))"
  using animate_twist_frames_below_one [of 0 "fresh (np_array default_positions)" "Some ''bailar''" "Some 90"]
  by simp

text \<open>
  C8: for a current vertex set of six points, \<open>generate_planes\<close> returns exactly 8 entries,
  the i-th holding the x, y and z coordinates, in vertex order, of the three points named by
  the i-th triple of the face topology \<open>(0,2,4), (0,2,5), (0,3,4), (0,3,5), (1,2,4), (1,2,5),
  (1,3,4), (1,3,5)\<close>. The result is a function of the current vertex set alone, and the
  call changes nothing.
\<close>

theorem generate_planes_faces:
  assumes "len (positions c) = 6"
  shows "generate_planes c = Inr (facesAsCoordinates (tolist (positions c)))
       \<and> length (facesAsCoordinates (tolist (positions c))) = 8
       \<and> face_topology = [(0, 2, 4), (0, 2, 5), (0, 3, 4), (0, 3, 5),
                           (1, 2, 4), (1, 2, 5), (1, 3, 4), (1, 3, 5)]"
  using generate_planes_six [OF assms]
  by (simp add: facesAsCoordinates_def face_topology_def)

theorem generate_planes_faces_witness:
  "len (positions (fresh (np_array default_positions))) = 6
   \<and> generate_planes (fresh (np_array default_positions)) =
       Inr [\<lparr>plane_x = [PyInt 1, PyInt 0, PyInt 0], plane_y = [PyInt 0, PyInt 1, PyInt 0], plane_z = [PyInt 0, PyInt 0, PyInt 1]\<rparr>,
        \<lparr>plane_x = [PyInt 1, PyInt 0, PyInt 0], plane_y = [PyInt 0, PyInt 1, PyInt 0], plane_z = [PyInt 0, PyInt 0, PyInt (- 1)]\<rparr>,
        \<lparr>plane_x = [PyInt 1, PyInt 0, PyInt 0], plane_y = [PyInt 0, PyInt (- 1), PyInt 0], plane_z = [PyInt 0, PyInt 0, PyInt 1]\<rparr>,
        \<lparr>plane_x = [PyInt 1, PyInt 0, PyInt 0], plane_y = [PyInt 0, PyInt (- 1), PyInt 0], plane_z = [PyInt 0, PyInt 0, PyInt (- 1)]\<rparr>,
        \<lparr>plane_x = [PyInt (- 1), PyInt 0, PyInt 0], plane_y = [PyInt 0, PyInt 1, PyInt 0], plane_z = [PyInt 0, PyInt 0, PyInt 1]\<rparr>,
        \<lparr>plane_x = [PyInt (- 1), PyInt 0, PyInt 0], plane_y = [PyInt 0, PyInt 1, PyInt 0], plane_z = [PyInt 0, PyInt 0, PyInt (- 1)]\<rparr>,
        \<lparr>plane_x = [PyInt (- 1), PyInt 0, PyInt 0], plane_y = [PyInt 0, PyInt (- 1), PyInt 0], plane_z = [PyInt 0, PyInt 0, PyInt 1]\<rparr>,
        \<lparr>plane_x = [PyInt (- 1), PyInt 0, PyInt 0], plane_y = [PyInt 0, PyInt (- 1), PyInt 0], plane_z = [PyInt 0, PyInt 0, PyInt (- 1)]\<rparr>]"
proof -
  have h: "len (positions (fresh (np_array default_positions))) = 6"
    by (simp add: fresh_def default_array)
  show ?thesis
    using h generate_planes_faces [OF h]
    by (simp add: fresh_def default_array facesAsCoordinates_def face_topology_def)
qed


section \<open>Claims about sequences of calls\<close>

text \<open>
  C9, as stated, fails in its second half: the claim is that the current vertex set of
  every complex always has exactly six entries. A complex constructed from one point has
  one current position, before and after a twist.
\<close>

theorem one_vertex_complex_has_one_position:
  "OctahedralComplex_init (Some [(PyInt 1, PyInt 0, PyInt 0)]) = Inr (fresh (IntArray [(1, 0, 0)]))
   \<and> len (positions (run_calls [RayDutt 60 1] (fresh (IntArray [(1, 0, 0)])))) = 1"
proof -
  have "len (positions (fresh (IntArray [(1, 0, 0)]))) =
        len (initial_positions (fresh (IntArray [(1, 0, 0)])))"
    by (simp add: fresh_def)
  from run_calls_len [OF this, of "[RayDutt 60 1]"]
  show ?thesis
    by (simp add: OctahedralComplex_init_def np_array_def Let_def fresh_def)
qed

text \<open>
  C9, amended: after any sequence of calls (the two twists, \<open>generate_planes\<close>, frame
  generation; returned or raised) on a constructed complex, the initial vertex set is the
  one stored at construction, and the current vertex set has as many entries as the
  initial one: the number of points supplied, six for the default.
\<close>

theorem initial_fixed_and_count_kept:
  "\<exists>c. OctahedralComplex_init arg = Inr c
       \<and> initial_positions (run_calls calls c) = initial_positions c
       \<and> len (positions (run_calls calls c)) = len (initial_positions c)
       \<and> len (initial_positions c) =
            length (case arg of None \<Rightarrow> default_positions | Some p \<Rightarrow> p)
       \<and> length default_positions = 6"
proof -
  let ?v = "np_array (case arg of None \<Rightarrow> default_positions | Some p \<Rightarrow> p)"
  have c: "OctahedralComplex_init arg = Inr (fresh ?v)"
    by (simp add: OctahedralComplex_init_def Let_def fresh_def)
  have "len (positions (fresh ?v)) = len (initial_positions (fresh ?v))"
    by (simp add: fresh_def)
  from run_calls_len [OF this, of calls]
  have l: "len (positions (run_calls calls (fresh ?v))) = len (initial_positions (fresh ?v))" .
  have n: "len (initial_positions (fresh ?v)) =
            length (case arg of None \<Rightarrow> default_positions | Some p \<Rightarrow> p)"
    by (simp add: fresh_def len_np_array)
  have d: "length default_positions = 6" by (simp add: default_positions_def)
  show ?thesis using c l n d run_calls_initial [of calls "fresh ?v"] by blast
qed

text \<open>
  C4: on a complex of six vertices, the result of a twist after any sequence of earlier
  calls is the result of the same twist on a fresh complex with the same initial vertex
  set; and \<open>ray_dutt_twist\<close> at progression 1 is the single rotation of the initial set by
  the angle about \<open>(1, 1, 1) / sqrt 3\<close>.
\<close>

theorem twists_depend_on_initial_only:
  assumes "len (initial_positions c) = 6"
  shows "fst (ray_dutt_twist (run_calls calls c) a p) =
           fst (ray_dutt_twist (fresh (initial_positions c)) a p)
       \<and> fst (bailar_twist (run_calls calls c) a p) =
           fst (bailar_twist (fresh (initial_positions c)) a p)
       \<and> fst (ray_dutt_twist (run_calls calls c) a 1) =
           Inr (FloatArray (rotate_points (as_float (initial_positions c)) (deg2rad a)
                              (div3 (1, 1, 1) (sqrt 3))))"
proof -
  have i: "initial_positions (run_calls calls c) = initial_positions c"
    by (rule run_calls_initial)
  have 1: "fst (ray_dutt_twist (run_calls calls c) a p) =
           fst (ray_dutt_twist (fresh (initial_positions c)) a p)"
    using ray_dutt_fresh [of "run_calls calls c" a p] i by simp
  have 2: "fst (bailar_twist (run_calls calls c) a p) =
           fst (bailar_twist (fresh (initial_positions c)) a p)"
    using bailar_fresh [of "run_calls calls c" a p] i by simp
  have n: "len (initial_positions (run_calls calls c)) \<noteq> 0" using assms i by simp
  have 3: "fst (ray_dutt_twist (run_calls calls c) a 1) =
           Inr (FloatArray (rotate_points (as_float (initial_positions c)) (deg2rad a)
                              (div3 (1, 1, 1) (sqrt 3))))"
    using ray_dutt_twist_rotate [OF n, of a 1] i by simp
  show ?thesis using 1 2 3 by blast
qed

theorem twists_depend_on_initial_only_witness:
  "len (initial_positions (fresh (np_array default_positions))) = 6
   \<and> fst (ray_dutt_twist
            (run_calls [Bailar 60 1, RayDutt 90 (1 / 2), GeneratePlanes]
               (fresh (np_array default_positions))) 120 1) =
       Inr (FloatArray [(0, 1, 0), (0, - 1, 0), (0, 0, 1), (0, 0, - 1), (1, 0, 0), (- 1, 0, 0)])"
proof -
  have h: "len (initial_positions (fresh (np_array default_positions))) = 6"
    by (simp add: fresh_def default_array)
  have t: "deg2rad 120 = 2 * pi / 3" by (simp add: deg2rad_def)
  have s: "sqrt 3 * sqrt 3 = 3" by simp
  from twists_depend_on_initial_only
         [OF h, of "[Bailar 60 1, RayDutt 90 (1 / 2), GeneratePlanes]" 120 1]
  have "fst (ray_dutt_twist
            (run_calls [Bailar 60 1, RayDutt 90 (1 / 2), GeneratePlanes]
               (fresh (np_array default_positions))) 120 1) =
        Inr (FloatArray (rotate_points
               (as_float (initial_positions (fresh (np_array default_positions))))
               (deg2rad 120) (div3 (1, 1, 1) (sqrt 3))))"
    by blast
  also have "\<dots> = Inr (FloatArray [(0, 1, 0), (0, - 1, 0), (0, 0, 1), (0, 0, - 1), (1, 0, 0), (- 1, 0, 0)])"
    unfolding t
    by (simp add: fresh_def default_array rotate_points_def rotate_about_def cos_120' sin_120' s
                  field_simps)
  finally show ?thesis using h by simp
qed


section \<open>Claims about the animation sequence\<close>

text \<open>
  C5: the claim is that the sequence has \<open>n + 1\<close> frames, the i-th at progression \<open>i / n\<close>,
  starting at the undistorted geometry and ending at the full requested angle. The count and
  the progression values are as claimed, and the Ray-Dutt frames are the rotated vertex sets
  (\<open>animate_twist_ray_dutt_frames\<close>). The Bailar frames are the counter-rotated sets cast to
  the element type of the initial array (\<open>animate_twist_bailar_frames\<close>): on the default
  complex, with 60 degrees and one frame, the last frame holds \<open>(0, 0, 0)\<close> at the four
  vertices of the xy-plane, where the full angle gives \<open>(1 / 2, sqrt 3 / 2, 0)\<close> and its
  companions.
\<close>

theorem animate_twist_bailar_last_frame_truncated:
  "map_sum id (map frame_positions)
     (fst (animate_twist (fresh (np_array default_positions))
             \<lparr>req_twist_type = Some ''bailar'', req_angle = Some 60, req_frames = Some 1\<rparr>)) =
     Inr [[(PyInt 1, PyInt 0, PyInt 0), (PyInt (- 1), PyInt 0, PyInt 0),
           (PyInt 0, PyInt 1, PyInt 0), (PyInt 0, PyInt (- 1), PyInt 0),
           (PyInt 0, PyInt 0, PyInt 1), (PyInt 0, PyInt 0, PyInt (- 1))],
          [(PyInt 0, PyInt 0, PyInt 0), (PyInt 0, PyInt 0, PyInt 0),
           (PyInt 0, PyInt 0, PyInt 0), (PyInt 0, PyInt 0, PyInt 0),
           (PyInt 0, PyInt 0, PyInt 1), (PyInt 0, PyInt 0, PyInt (- 1))]]
   \<and> counter_rotate (deg2rad 60)
         [(1, 0, 0), (- 1, 0, 0), (0, 1, 0), (0, - 1, 0), (0, 0, 1), (0, 0, - 1)] =
       [(1 / 2, sqrt 3 / 2, 0), (- (1 / 2), sqrt 3 / 2, 0),
        (- (sqrt 3 / 2), 1 / 2, 0), (- (sqrt 3 / 2), - (1 / 2), 0),
        (0, 0, 1), (0, 0, - 1)]"
proof -
  let ?c = "fresh (np_array default_positions)"
  have i: "initial_positions ?c =
     IntArray [(1, 0, 0), (- 1, 0, 0), (0, 1, 0), (0, - 1, 0), (0, 0, 1), (0, 0, - 1)]"
    by (simp add: fresh_def default_array)
  have six: "len (initial_positions ?c) = 6" unfolding i by simp
  have t: "deg2rad 60 = pi / 3" by (simp add: deg2rad_def)
  have h: "cast_int64 (1 / 2) = 0" "cast_int64 (- (1 / 2)) = 0"
    by (simp_all add: cast_int64_small)
  have h3: "cast_int64 (sqrt 3 / 2) = 0"
    by (rule cast_int64_small) (use sqrt3_half in linarith)+
  have h4: "cast_int64 (- (sqrt 3 / 2)) = 0"
    by (rule cast_int64_small) (use sqrt3_half in linarith)+
  have full: "counter_rotate (deg2rad 60)
         [(1, 0, 0), (- 1, 0, 0), (0, 1, 0), (0, - 1, 0), (0, 0, 1), (0, 0, - 1)] =
       [(1 / 2, sqrt 3 / 2, 0), (- (1 / 2), sqrt 3 / 2, 0),
        (- (sqrt 3 / 2), 1 / 2, 0), (- (sqrt 3 / 2), - (1 / 2), 0),
        (0, 0, 1), (0, 0, - 1)]"
    unfolding t counter_rotate_six by (simp add: rotate_about_z cos_60 sin_60)
  have zero: "counter_rotate 0
         [(1, 0, 0), (- 1, 0, 0), (0, 1, 0), (0, - 1, 0), (0, 0, 1), (0, 0, - 1)] =
       [(1, 0, 0), (- 1, 0, 0), (0, 1, 0), (0, - 1, 0), (0, 0, 1), (0, 0, - 1)]"
    unfolding counter_rotate_six by (simp add: rotate_about_zero)
  have k: "''bailar'' \<noteq> ''ray_dutt''" by simp
  have n: "(1::int) \<le> 1" by simp
  have frames: "fst (animate_twist ?c
             \<lparr>req_twist_type = Some ''bailar'', req_angle = Some 60, req_frames = Some 1\<rparr>) =
        Inr [snapshot (tolist (astype_like (initial_positions ?c)
                (counter_rotate (deg2rad (60 * (real 0 / real_of_int 1)))
                   (as_float (initial_positions ?c))))),
             snapshot (tolist (astype_like (initial_positions ?c)
                (counter_rotate (deg2rad (60 * (real 1 / real_of_int 1)))
                   (as_float (initial_positions ?c)))))]"
    using animate_twist_bailar_frames [OF six n k, of 60] by (simp add: upt_rec)
  have "map_sum id (map frame_positions)
     (fst (animate_twist ?c
             \<lparr>req_twist_type = Some ''bailar'', req_angle = Some 60, req_frames = Some 1\<rparr>)) =
     Inr [[(PyInt 1, PyInt 0, PyInt 0), (PyInt (- 1), PyInt 0, PyInt 0),
           (PyInt 0, PyInt 1, PyInt 0), (PyInt 0, PyInt (- 1), PyInt 0),
           (PyInt 0, PyInt 0, PyInt 1), (PyInt 0, PyInt 0, PyInt (- 1))],
          [(PyInt 0, PyInt 0, PyInt 0), (PyInt 0, PyInt 0, PyInt 0),
           (PyInt 0, PyInt 0, PyInt 0), (PyInt 0, PyInt 0, PyInt 0),
           (PyInt 0, PyInt 0, PyInt 1), (PyInt 0, PyInt 0, PyInt (- 1))]]"
    unfolding frames i
    by (simp add: snapshot_def full zero h h3 h4)
  then show ?thesis using full by simp
qed

section \<open>The z-axis rows of the Bailar twist in binary64\<close>

text \<open>
  With the default positions and 3 degrees, the quaternion of the top rotation is, in
  binary64, \<open>(0, 0, z, w)\<close> with \<open>z = 7544991657282193 / 2 ^ 58\<close> and
  \<open>w = 9004112712516213 / 2 ^ 53\<close> (hexadecimal \<^verbatim>\<open>0x1.ace214390ca91p-6\<close> and
  \<^verbatim>\<open>0x1.ffd315bbf4275p-1\<close>). The matrix entry \<open>z * z + w * w\<close>, exactly 1 over the reals,
  is then \<open>1 - 1 / 2 ^ 53\<close>, and the rows \<open>(0, 0, 1)\<close> and \<open>(0, 0, - 1)\<close> are stored into the
  integer array as \<open>(0, 0, 0)\<close>.
\<close>

lemma round_double_scaled:
  fixes n :: nat
  assumes lo: "2 ^ 52 \<le> x * 2 ^ n" and hi: "x * 2 ^ n < 2 ^ 53"
  shows "round_double x = real_of_int (round_half_even (x * 2 ^ n)) / 2 ^ n"
proof -
  have pos: "0 < x"
  proof (rule ccontr)
    assume "\<not> 0 < x"
    then have "x * 2 ^ n \<le> 0" by (simp add: mult_le_0_iff)
    with lo show False by (smt (verit) zero_less_power)
  qed
  have p: "2 powr real_of_int (52 - int n) = 2 ^ 52 / 2 ^ n"
    by (simp add: powr_diff powr_realpow)
  have p1: "2 powr real_of_int (52 - int n + 1) = 2 ^ 53 / 2 ^ n"
    by (simp add: powr_diff powr_add powr_realpow)
  have "2 ^ 52 / 2 ^ n \<le> x" using lo by (simp add: field_simps)
  moreover have "x < 2 ^ 53 / 2 ^ n" using hi by (simp add: field_simps)
  ultimately have fl: "\<lfloor>log 2 x\<rfloor> = 52 - int n"
    using pos p p1 by (subst floor_log_eq_powr_iff) simp_all
  have e: "2 powr (- real n) = 1 / 2 ^ n"
    by (simp add: powr_minus powr_realpow inverse_eq_divide)
  show ?thesis
    using pos by (simp add: round_double_def fl e)
qed

lemma round_half_even_int [simp]: "round_half_even (real_of_int i) = i"
  by (simp add: round_half_even_def)

lemma round_double_zero [simp]: "round_double 0 = 0"
  by (simp add: round_double_def)

lemma round_half_even_down:
  "real_of_int f \<le> x \<Longrightarrow> x < real_of_int f + 1 / 2 \<Longrightarrow> round_half_even x = f"
proof -
  assume a: "real_of_int f \<le> x" "x < real_of_int f + 1 / 2"
  then have "\<lfloor>x\<rfloor> = f" by (intro floor_unique) linarith+
  then show ?thesis using a by (simp add: round_half_even_def Let_def)
qed

lemma round_half_even_up:
  "real_of_int f - 1 / 2 < x \<Longrightarrow> x < real_of_int f \<Longrightarrow> round_half_even x = f"
proof -
  assume a: "real_of_int f - 1 / 2 < x" "x < real_of_int f"
  have m: "real_of_int (f - 1) = real_of_int f - 1" by simp
  have "\<lfloor>x\<rfloor> = f - 1"
  proof (rule floor_unique)
    show "real_of_int (f - 1) \<le> x" unfolding m using a by linarith
    show "x < real_of_int (f - 1) + 1" unfolding m using a by linarith
  qed
  then show ?thesis using a by (simp add: round_half_even_def Let_def)
qed

lemma round_half_even_numeral [simp]: "round_half_even (numeral k) = numeral k"
  by (simp add: round_half_even_def)

lemma zz_square:
  "round_double (7544991657282193 / 2 ^ 58 * (7544991657282193 / 2 ^ 58)) =
     6320155411072325 / 2 ^ 63"
proof -
  have r: "round_half_even (56926899108457893310407234889249 / 9007199254740992) =
             6320155411072325"
    by (rule round_half_even_up) simp_all
  show ?thesis
    by (subst round_double_scaled [where n = 63]) (simp_all add: r)
qed

lemma ww_square:
  "round_double (9004112712516213 / 2 ^ 53 * (9004112712516213 / 2 ^ 53)) =
     9001027227972366 / 2 ^ 53"
proof -
  have r: "round_half_even (81074045739696075015065787861369 / 9007199254740992) =
             9001027227972366"
    by (rule round_half_even_down) simp_all
  show ?thesis
    by (subst round_double_scaled [where n = 53]) (simp_all add: r)
qed

lemma zz_rounded_again:
  "round_double (6320155411072325 / 2 ^ 63) = 6320155411072325 / 2 ^ 63"
  by (subst round_double_scaled [where n = 63]) simp_all

lemma zz_plus_ww:
  "round_double (6320155411072325 / 2 ^ 63 + 9001027227972366 / 2 ^ 53) =
     9007199254740991 / 2 ^ 53"
proof -
  have r: "round_half_even (9223372036854775109 / 1024) = 9007199254740991"
    by (rule round_half_even_down) simp_all
  show ?thesis
    by (subst round_double_scaled [where n = 53]) (simp_all add: r)
qed

lemma zz_entry_double_3_degrees:
  "zz_entry_double (0, 0, 7544991657282193 / 2 ^ 58, 9004112712516213 / 2 ^ 53) =
     1 - 1 / 2 ^ 53"
  unfolding zz_entry_double.simps Let_def
  by (simp only: mult_zero_left round_double_zero minus_zero diff_zero add_0
        zz_square ww_square zz_rounded_again zz_plus_ww) simp

lemma stored_z_rows_3_degrees:
  "cast_int64 (zz_entry_double (0, 0, 7544991657282193 / 2 ^ 58, 9004112712516213 / 2 ^ 53) * 1) = 0"
  "cast_int64 (zz_entry_double (0, 0, 7544991657282193 / 2 ^ 58, 9004112712516213 / 2 ^ 53) * (- 1)) = 0"
  unfolding zz_entry_double_3_degrees
  by (rule cast_int64_small; simp)+

end
